theory Spec2Isabelle
  imports Main "HOL-Library.Multiset"
begin

section \<open>Data model of package twitch (twitch/twitch.go)\<close>

text \<open>
  A \<open>time.Time\<close> is modelled as the number of nanoseconds since Go's zero instant, so
  \<open>t.IsZero()\<close> is \<open>t = 0\<close>. A \<open>time.Duration\<close> is a number of nanoseconds.
\<close>

type_synonym time = int
type_synonym duration = int

record discordChannel =
  ChannelID :: string
  LiveNotificationSent :: bool

record twitchChannelInfo =
  DisplayName :: string
  LogoURL :: string
  StreamTitle :: string
  GameID :: string
  ThumbnailURL :: string
  StartTime :: time
  EndTime :: time
  DiscordChannels :: "string \<rightharpoonup> discordChannel list"

type_synonym registry = "string \<rightharpoonup> twitchChannelInfo"

text \<open>
  The \<open>Session\<close> struct. Its \<open>client\<close> field is an opaque handle of the helix library:
  what the client answers is an input of each operation (record \<open>env\<close> below).
\<close>

record Session =
  name :: string
  isConnected :: bool
  twitchData :: registry

text \<open>
  The package variable \<open>guildStatus\<close> is a map from guild ID to a boolean. It is written by
  the gateway handlers and read by \<open>Close\<close> and by the monitor, which take it as an argument.
\<close>

type_synonym guilds = "string \<rightharpoonup> bool"

text \<open>
  The snapshot files under \<open>constants.DataPath\<close>, one per session name, and the number of
  calls of \<open>utils.WriteGobToDisk\<close> made so far.
\<close>

record world =
  sess :: Session
  files :: "string \<rightharpoonup> registry"
  writes :: nat

datatype error =
    ErrTwitchUserDoesNotExist
  | ErrInvalidToken
  | ErrTwitchUserRegistered
  | ErrEmptyAccessToken
  | ErrNotExist
  | ErrExternal string

datatype panic = NilDereference | IndexOutOfRange

subsection \<open>Answers of the external collaborators\<close>

datatype validate_resp =
    ValidateFailed
  | Validated bool int

datatype token_resp =
    TokenFailed
  | Token string

record user =
  UserDisplayName :: string
  ProfileImageURL :: string

record stream =
  UserLogin :: string
  StreamType :: string
  Title :: string
  StreamGameID :: string
  StreamThumbnailURL :: string
  StartedAt :: time

text \<open>
  What the outside decides during one call: the token validation; the token exchange; the
  user lookup and the stream query, where \<open>None\<close> is a call that failed (helix then hands
  back a nil response together with the error; the source logs the error and goes on to
  read the response); the outcome of the snapshot write; the clock; and when the
  goroutines that send the messages run.

  The closure of such a goroutine takes no argument: it reads the loop variables
  \<open>discordChannel\<close> and \<open>tcInfo\<close> when it runs, not when it is started, and the source is
  built with Go 1.16, where all iterations of a loop share its variables. For the goroutine
  started for streaming channel \<open>k\<close> in the slice of guild \<open>g\<close> at index \<open>i\<close>,
  \<open>channelRead e k g i\<close> is the number of further iterations the inner loop has begun when
  the goroutine reads \<open>discordChannel\<close>, and \<open>infoRead e k g i\<close> is the streaming channel
  at which the outer loop stands when it reads \<open>tcInfo\<close> (\<open>k\<close> itself while the outer loop
  has not moved on).
\<close>

record env =
  validateResp :: validate_resp
  tokenResp :: token_resp
  usersResp :: "user list option"
  streamsResp :: "stream list option"
  writeErr :: "error option"
  clock :: time
  channelRead :: "string \<Rightarrow> string \<Rightarrow> nat \<Rightarrow> nat"
  infoRead :: "string \<Rightarrow> string \<Rightarrow> nat \<Rightarrow> string"

subsection \<open>Notifications\<close>

record MessageEmbed =
  EmbedURL :: string
  EmbedTitle :: string
  ImageURL :: string
  AuthorName :: string
  AuthorIconURL :: string

datatype notification =
    SendEmbed string MessageEmbed
  | SendText string string

section \<open>Snapshot store\<close>

text \<open>
  Modelled from the spec: \<open>utils.WriteGobToDisk\<close> is not among the sources. Section 4.1 of
  the specification: a write is a whole-file overwrite of the snapshot of the session name,
  a failure is reported as an error, and what was saved is what a later load returns. The
  first argument is the outcome the environment decides (\<open>None\<close>: the write succeeds).
\<close>

definition WriteGobToDisk :: "error option \<Rightarrow> string \<Rightarrow> registry \<Rightarrow> world \<Rightarrow> error option \<times> world" where
  "WriteGobToDisk outcome nm reg w =
     (case outcome of
        None \<Rightarrow> (None, w\<lparr>files := (files w)(nm \<mapsto> reg), writes := Suc (writes w)\<rparr>)
      | Some e \<Rightarrow> (Some e, w\<lparr>writes := Suc (writes w)\<rparr>))"

text \<open>
  \<open>readGobFromDisk\<close>: a missing file is \<open>os.ErrNotExist\<close>; a file that is there decodes to the
  registry that was saved.
\<close>

definition readGobFromDisk :: "string \<Rightarrow> (string \<rightharpoonup> registry) \<Rightarrow> error + registry" where
  "readGobFromDisk nm fs = (case fs nm of None \<Rightarrow> Inl ErrNotExist | Some reg \<Rightarrow> Inr reg)"

section \<open>Session operations\<close>

definition Close :: "env \<Rightarrow> guilds \<Rightarrow> world \<Rightarrow> error option \<times> world" where
  "Close e guildStatus w =
     (let prune = (\<lambda>tcInfo. tcInfo\<lparr>DiscordChannels :=
                      (\<lambda>gID. if guildStatus gID = Some False then None
                             else DiscordChannels tcInfo gID)\<rparr>);
          t = (sess w)\<lparr>isConnected := False,
                       twitchData := (\<lambda>k. map_option prune (twitchData (sess w) k))\<rparr>
      in WriteGobToDisk (writeErr e) (name t) (twitchData t) (w\<lparr>sess := t\<rparr>))"

definition New :: "error option \<Rightarrow> string \<Rightarrow> (string \<rightharpoonup> registry) \<Rightarrow> Session \<times> error option" where
  "New clientErr nm fs =
     (case clientErr of
        Some e \<Rightarrow> (\<lparr>name = nm, isConnected = False, twitchData = Map.empty\<rparr>, Some e)
      | None \<Rightarrow>
          (case readGobFromDisk nm fs of
             Inl e \<Rightarrow> (\<lparr>name = nm, isConnected = False, twitchData = Map.empty\<rparr>,
                       if e = ErrNotExist then None else Some e)
           | Inr reg \<Rightarrow> (\<lparr>name = nm, isConnected = False, twitchData = reg\<rparr>, None)))"

definition GetAuthToken :: "env \<Rightarrow> Session \<Rightarrow> error option \<times> Session" where
  "GetAuthToken e t =
     (case tokenResp e of
        TokenFailed \<Rightarrow> (Some (ErrExternal ''RequestAppAccessToken''), t)
      | Token tok \<Rightarrow>
          if tok = [] then (Some ErrEmptyAccessToken, t)
          else (None, t\<lparr>isConnected := True\<rparr>))"

text \<open>
  The refresh loop \<open>for !ts.isConnected\<close> calls \<open>GetAuthToken\<close> and leaves at the first
  answer: an error breaks out of it, a success sets \<open>isConnected\<close> and ends it.
\<close>

definition validateAndRefreshAuthToken :: "env \<Rightarrow> Session \<Rightarrow> bool \<times> Session" where
  "validateAndRefreshAuthToken e ts =
     (case validateResp e of
        ValidateFailed \<Rightarrow> (False, ts)
      | Validated isValid statusCode \<Rightarrow>
          if \<not> isValid then
            (let (err, ts') = GetAuthToken e (ts\<lparr>isConnected := False\<rparr>)
             in (isConnected ts', ts'))
          else if statusCode \<noteq> 200 then (False, ts)
          else (True, ts))"

text \<open>Indexing a map of slices at a missing key gives the nil slice.\<close>

definition guildChannels :: "twitchChannelInfo \<Rightarrow> string \<Rightarrow> discordChannel list" where
  "guildChannels tcInfo gID = (case DiscordChannels tcInfo gID of None \<Rightarrow> [] | Some ds \<Rightarrow> ds)"

text \<open>The range loop of \<open>getChannelIdx\<close>, with the running index.\<close>

fun scanChannels :: "discordChannel list \<Rightarrow> string \<Rightarrow> int \<Rightarrow> int" where
  "scanChannels [] discordChannelID i = - 1"
| "scanChannels (d # ds) discordChannelID i =
     (if ChannelID d = discordChannelID then i else scanChannels ds discordChannelID (i + 1))"

definition getChannelIdx :: "Session \<Rightarrow> string \<Rightarrow> string \<Rightarrow> string \<Rightarrow> int" where
  "getChannelIdx t twitchID discordGuildID discordChannelID =
     (case twitchData t twitchID of
        None \<Rightarrow> - 1
      | Some tcInfo \<Rightarrow> scanChannels (guildChannels tcInfo discordGuildID) discordChannelID 0)"

text \<open>
  \<open>remove\<close> swaps the element at \<open>i\<close> with the last one and cuts the last one off. An index
  outside the slice panics.
\<close>

definition remove_slice :: "discordChannel list \<Rightarrow> int \<Rightarrow> panic + discordChannel list" where
  "remove_slice s i =
     (if 0 \<le> i \<and> i < int (length s) then
        (let n = length s; j = nat i
         in Inr (take (n - 1) (s[n - 1 := s ! j, j := s ! (n - 1)])))
      else Inl IndexOutOfRange)"

text \<open>
  The second half of \<open>RegisterChannel\<close>, from the check of \<open>getChannelIdx\<close> on: it runs on
  a session that holds the streaming channel. A failed snapshot write is only logged.
\<close>

definition appendChannel ::
  "env \<Rightarrow> string \<Rightarrow> string \<Rightarrow> string \<Rightarrow> world \<Rightarrow> panic + (error option \<times> world)" where
  "appendChannel e twitchID discordGuildID discordChannelID w =
     (if getChannelIdx (sess w) twitchID discordGuildID discordChannelID < 0 then
        (case twitchData (sess w) twitchID of
           None \<Rightarrow> Inl NilDereference
         | Some tcInfo \<Rightarrow>
             (let dc = \<lparr>ChannelID = discordChannelID, LiveNotificationSent = False\<rparr>;
                  tcInfo' = tcInfo\<lparr>DiscordChannels := (DiscordChannels tcInfo)
                      (discordGuildID \<mapsto> guildChannels tcInfo discordGuildID @ [dc])\<rparr>;
                  t' = (sess w)\<lparr>twitchData := (twitchData (sess w))(twitchID \<mapsto> tcInfo')\<rparr>;
                  (err, w') = WriteGobToDisk (writeErr e) (name t') (twitchData t') (w\<lparr>sess := t'\<rparr>)
              in Inr (None, w')))
      else Inr (Some ErrTwitchUserRegistered, w))"

definition RegisterChannel ::
  "env \<Rightarrow> string \<Rightarrow> string \<Rightarrow> string \<Rightarrow> world \<Rightarrow> panic + (error option \<times> world)" where
  "RegisterChannel e twitchID discordGuildID discordChannelID w =
     (case twitchData (sess w) twitchID of
        Some tcInfo \<Rightarrow> appendChannel e twitchID discordGuildID discordChannelID w
      | None \<Rightarrow>
          (let (ok, t1) = validateAndRefreshAuthToken e (sess w)
           in if ok then
                (case usersResp e of
                   None \<Rightarrow> Inl NilDereference
                 | Some [] \<Rightarrow> Inr (Some ErrTwitchUserDoesNotExist, w\<lparr>sess := t1\<rparr>)
                 | Some (u # us) \<Rightarrow>
                     (let tcInfo = \<lparr>DisplayName = UserDisplayName u, LogoURL = ProfileImageURL u,
                                    StreamTitle = [], GameID = [], ThumbnailURL = [],
                                    StartTime = 0, EndTime = 0, DiscordChannels = Map.empty\<rparr>
                      in appendChannel e twitchID discordGuildID discordChannelID
                           (w\<lparr>sess := t1\<lparr>twitchData := (twitchData t1)(twitchID \<mapsto> tcInfo)\<rparr>\<rparr>)))
              else Inr (Some ErrInvalidToken, w\<lparr>sess := t1\<rparr>)))"

definition SetGuildActive :: "string \<Rightarrow> guilds \<Rightarrow> guilds" where
  "SetGuildActive guildID guildStatus = guildStatus(guildID \<mapsto> True)"

definition SetGuildInactive :: "string \<Rightarrow> guilds \<Rightarrow> guilds" where
  "SetGuildInactive guildID guildStatus = guildStatus(guildID \<mapsto> False)"

definition SetGuildUnavailable :: "string \<Rightarrow> guilds \<Rightarrow> guilds" where
  "SetGuildUnavailable guildID guildStatus = guildStatus(guildID := None)"

definition UnregisterChannel ::
  "env \<Rightarrow> string \<Rightarrow> string \<Rightarrow> string \<Rightarrow> world \<Rightarrow> panic + (bool \<times> world)" where
  "UnregisterChannel e twitchID discordGuildID discordChannelID w =
     (let channelIdx = getChannelIdx (sess w) twitchID discordGuildID discordChannelID
      in if 0 \<le> channelIdx then
           (case twitchData (sess w) twitchID of
              None \<Rightarrow> Inl NilDereference
            | Some tcInfo \<Rightarrow>
                (case remove_slice (guildChannels tcInfo discordGuildID) channelIdx of
                   Inl p \<Rightarrow> Inl p
                 | Inr s \<Rightarrow>
                     (let dcs1 = (DiscordChannels tcInfo)(discordGuildID \<mapsto> s);
                          dcs2 = (if length s = 0 then dcs1(discordGuildID := None) else dcs1);
                          tcInfo' = tcInfo\<lparr>DiscordChannels := dcs2\<rparr>;
                          td = (if dcs2 = Map.empty then (twitchData (sess w))(twitchID := None)
                                else (twitchData (sess w))(twitchID \<mapsto> tcInfo'));
                          t' = (sess w)\<lparr>twitchData := td\<rparr>;
                          (err, w') = WriteGobToDisk (writeErr e) (name t') td (w\<lparr>sess := t'\<rparr>)
                      in Inr (True, w'))))
         else Inr (False, w))"

section \<open>The monitor\<close>

text \<open>
  \<open>time.Since\<close>: the difference of two instants as a \<open>Duration\<close>, which saturates at the
  ends of the 64-bit range.
\<close>

definition Since :: "time \<Rightarrow> time \<Rightarrow> duration" where
  "Since now t =
     (let d = now - t
      in if 2 ^ 63 - 1 < d then 2 ^ 63 - 1 else if d < - (2 ^ 63) then - (2 ^ 63) else d)"

text \<open>
  \<open>strings.Replace(s, old, new, -1)\<close> for a non-empty \<open>old\<close>, which is how the embed calls
  it: the first argument counts the characters of a match still to be skipped.
\<close>

fun replace_from :: "nat \<Rightarrow> string \<Rightarrow> string \<Rightarrow> string \<Rightarrow> string" where
  "replace_from k old new [] = []"
| "replace_from k old new (c # s) =
     (if 0 < k then replace_from (k - 1) old new s
      else if take (length old) (c # s) = old then new @ replace_from (length old - 1) old new s
      else c # replace_from 0 old new s)"

definition Replace :: "string \<Rightarrow> string \<Rightarrow> string \<Rightarrow> string" where
  "Replace s old new = replace_from 0 old new s"

text \<open>The fields of the embed that depend on the channel info; the others are constants.\<close>

definition createDiscordEmbedMessage :: "twitchChannelInfo \<Rightarrow> MessageEmbed" where
  "createDiscordEmbedMessage t =
     \<lparr>EmbedURL = ''https://www.twitch.tv/'' @ DisplayName t,
      EmbedTitle = StreamTitle t,
      ImageURL = Replace (Replace (ThumbnailURL t) ''{width}'' ''1920'') ''{height}'' ''1080'',
      AuthorName = DisplayName t,
      AuthorIconURL = LogoURL t\<rparr>"

text \<open>
  The body of the loop labelled \<open>OUTER\<close> for one registered channel: the first live stream
  of the response with the channel's login fills the stream fields in; without one the
  start time is reset and the end time is stamped if it is still zero.
\<close>

fun populateTimes :: "time \<Rightarrow> string \<Rightarrow> stream list \<Rightarrow> twitchChannelInfo \<Rightarrow> twitchChannelInfo" where
  "populateTimes now twitchChannel [] tcInfo =
     tcInfo\<lparr>StartTime := 0, EndTime := (if EndTime tcInfo = 0 then now else EndTime tcInfo)\<rparr>"
| "populateTimes now twitchChannel (streams # rest) tcInfo =
     (if UserLogin streams = twitchChannel \<and> StreamType streams = ''live'' then
        tcInfo\<lparr>StreamTitle := Title streams, GameID := StreamGameID streams,
               ThumbnailURL := StreamThumbnailURL streams,
               StartTime := StartedAt streams, EndTime := 0\<rparr>
      else populateTimes now twitchChannel rest tcInfo)"

text \<open>
  The two innermost loops over one guild's slice. The flag of a subscription is written in
  the loop body itself.
\<close>

definition markLive :: "discordChannel list \<Rightarrow> discordChannel list" where
  "markLive ds =
     map (\<lambda>d. if \<not> LiveNotificationSent d then d\<lparr>LiveNotificationSent := True\<rparr> else d) ds"

definition markOffline :: "discordChannel list \<Rightarrow> discordChannel list" where
  "markOffline ds =
     map (\<lambda>d. if LiveNotificationSent d then d\<lparr>LiveNotificationSent := False\<rparr> else d) ds"

text \<open>
  The indices of the slice at which the loop body starts a goroutine: those whose
  subscription passes the test of the \<open>if\<close>, counted from \<open>i\<close>.
\<close>

fun spawnedAt :: "(discordChannel \<Rightarrow> bool) \<Rightarrow> nat \<Rightarrow> discordChannel list \<Rightarrow> nat list" where
  "spawnedAt starts i [] = []"
| "spawnedAt starts i (d # ds) =
     (if starts d then i # spawnedAt starts (Suc i) ds else spawnedAt starts (Suc i) ds)"

text \<open>
  What the goroutine started at index \<open>i\<close> of the slice \<open>ds\<close> finds in the two loop
  variables when it runs. While the outer loop still stands at this streaming channel,
  \<open>tcInfo\<close> is its info and \<open>discordChannel\<close> is the subscription the inner loop has reached,
  the last one once the inner loop has ended. When the outer loop has moved on to another
  registered streaming channel, \<open>tcInfo\<close> is that channel's info (\<open>reg\<close> is the registry the
  loop ranges over) and \<open>discordChannel\<close> is the last subscription of the slice.
\<close>

definition closureReads ::
  "env \<Rightarrow> registry \<Rightarrow> string \<Rightarrow> twitchChannelInfo \<Rightarrow> string \<Rightarrow> discordChannel list \<Rightarrow> nat
     \<Rightarrow> discordChannel \<times> twitchChannelInfo" where
  "closureReads e reg twitchChannel tcInfo guild ds i =
     (let standsAt = infoRead e twitchChannel guild i
      in case (if standsAt = twitchChannel then None else reg standsAt) of
           Some other \<Rightarrow> (ds ! (length ds - 1), other)
         | None \<Rightarrow>
             (ds ! min (i + channelRead e twitchChannel guild i) (length ds - 1), tcInfo))"

text \<open>
  The messages the goroutines of one slice send: each goes to the channel ID of the
  subscription, and is built from the channel info, that its closure reads when it runs.
\<close>

definition liveMessages ::
  "env \<Rightarrow> registry \<Rightarrow> string \<Rightarrow> twitchChannelInfo \<Rightarrow> string \<Rightarrow> discordChannel list
     \<Rightarrow> notification list" where
  "liveMessages e reg twitchChannel tcInfo guild ds =
     map (\<lambda>i. case closureReads e reg twitchChannel tcInfo guild ds i of
                (discordChannel, info) \<Rightarrow>
                  SendEmbed (ChannelID discordChannel) (createDiscordEmbedMessage info))
       (spawnedAt (\<lambda>d. \<not> LiveNotificationSent d) 0 ds)"

definition offlineMessages ::
  "env \<Rightarrow> registry \<Rightarrow> string \<Rightarrow> twitchChannelInfo \<Rightarrow> string \<Rightarrow> discordChannel list
     \<Rightarrow> notification list" where
  "offlineMessages e reg twitchChannel tcInfo guild ds =
     map (\<lambda>i. case closureReads e reg twitchChannel tcInfo guild ds i of
                (discordChannel, info) \<Rightarrow>
                  SendText (ChannelID discordChannel) (DisplayName info @ '' is now offline!''))
       (spawnedAt LiveNotificationSent 0 ds)"

text \<open>
  The body of the second loop for one channel of the registry \<open>reg\<close>: the new channel info
  and, for every guild, the messages sent by the goroutines started in the guild's slice.
  \<open>D\<close> is \<open>constants.TwitchStateChangeTime\<close>.
\<close>

definition notifyChannel ::
  "duration \<Rightarrow> env \<Rightarrow> guilds \<Rightarrow> registry \<Rightarrow> string \<Rightarrow> twitchChannelInfo
     \<Rightarrow> twitchChannelInfo \<times> (string \<Rightarrow> notification list)" where
  "notifyChannel D e guildStatus reg twitchChannel tcInfo =
     (if StartTime tcInfo \<noteq> 0 \<and> D < Since (clock e) (StartTime tcInfo) then
        (tcInfo\<lparr>DiscordChannels := (\<lambda>guild. map_option
             (\<lambda>ds. if guildStatus guild = Some True then markLive ds else ds)
             (DiscordChannels tcInfo guild))\<rparr>,
         (\<lambda>guild. if guildStatus guild = Some True
                   then liveMessages e reg twitchChannel tcInfo guild (guildChannels tcInfo guild)
                   else []))
      else if EndTime tcInfo \<noteq> 0 \<and> D < Since (clock e) (EndTime tcInfo) then
        (tcInfo\<lparr>DiscordChannels := (\<lambda>guild. map_option
             (\<lambda>ds. if guildStatus guild = Some True then markOffline ds else ds)
             (DiscordChannels tcInfo guild))\<rparr>,
         (\<lambda>guild. if guildStatus guild = Some True
                   then offlineMessages e reg twitchChannel tcInfo guild (guildChannels tcInfo guild)
                   else []))
      else (tcInfo, (\<lambda>guild. [])))"

text \<open>
  One pass of the loop of \<open>monitorChannels\<close>: the session afterwards and the messages sent,
  by the streaming channel and guild in whose slice their goroutines were started. The clock
  is read once per pass, and the goroutines of a pass run before the next pass. A nil
  response is dereferenced as soon as the registry has a channel to look up in it.
\<close>

type_synonym sent = "string \<Rightarrow> string \<Rightarrow> notification list"

definition monitorCycle :: "duration \<Rightarrow> env \<Rightarrow> guilds \<Rightarrow> Session \<Rightarrow> panic + (Session \<times> sent)" where
  "monitorCycle D e guildStatus ts =
     (let (ok, ts1) = validateAndRefreshAuthToken e ts
      in if ok then
           (case streamsResp e of
              None \<Rightarrow>
                if twitchData ts1 = Map.empty then Inr (ts1, (\<lambda>twitchChannel guild. []))
                else Inl NilDereference
            | Some streams \<Rightarrow>
                (let populated = (\<lambda>twitchChannel.
                        map_option (populateTimes (clock e) twitchChannel streams)
                          (twitchData ts1 twitchChannel))
                 in Inr (ts1\<lparr>twitchData := (\<lambda>twitchChannel.
                              map_option
                                (\<lambda>tcInfo. fst (notifyChannel D e guildStatus populated
                                                  twitchChannel tcInfo))
                                (populated twitchChannel))\<rparr>,
                         (\<lambda>twitchChannel guild.
                              case populated twitchChannel of
                                None \<Rightarrow> []
                              | Some tcInfo \<Rightarrow>
                                  snd (notifyChannel D e guildStatus populated
                                         twitchChannel tcInfo) guild))))
         else Inr (ts1, (\<lambda>twitchChannel guild. [])))"

text \<open>
  The loop \<open>for ts.isConnected\<close>, for as many passes as the list gives answers of the
  outside (each with the guild status map in force during the pass): the messages of every
  pass in order, and the session at the end or the panic that stopped the loop.
\<close>

fun monitorChannels ::
  "duration \<Rightarrow> (env \<times> guilds) list \<Rightarrow> Session \<Rightarrow> sent list \<times> (panic + Session)" where
  "monitorChannels D [] ts = ([], Inr ts)"
| "monitorChannels D ((e, guildStatus) # rest) ts =
     (if isConnected ts then
        (case monitorCycle D e guildStatus ts of
           Inl p \<Rightarrow> ([], Inl p)
         | Inr (ts', out) \<Rightarrow>
             (let (outs, res) = monitorChannels D rest ts' in (out # outs, res)))
      else ([], Inr ts))"

section \<open>Vocabulary of the properties\<close>

text \<open>
  The chat channel \<open>cID\<close> of guild \<open>gID\<close> has a subscription to the streaming channel
  \<open>twitchID\<close> in the registry.
\<close>

definition subscribed :: "registry \<Rightarrow> string \<Rightarrow> string \<Rightarrow> string \<Rightarrow> bool" where
  "subscribed reg twitchID gID cID =
     (case reg twitchID of
        None \<Rightarrow> False
      | Some tcInfo \<Rightarrow> cID \<in> ChannelID ` set (guildChannels tcInfo gID))"

text \<open>
  The number of live messages (embeds) and the number of offline texts addressed to a chat
  channel.
\<close>

definition embedsTo :: "string \<Rightarrow> notification list \<Rightarrow> nat" where
  "embedsTo cID ns =
     length (filter (\<lambda>n. case n of SendEmbed c m \<Rightarrow> c = cID | SendText c t \<Rightarrow> False) ns)"

definition textsTo :: "string \<Rightarrow> notification list \<Rightarrow> nat" where
  "textsTo cID ns =
     length (filter (\<lambda>n. case n of SendEmbed c m \<Rightarrow> False | SendText c t \<Rightarrow> c = cID) ns)"

text \<open>
  Well-formed subscription lists of a streaming channel (no empty slice is stored and the chat
  channel IDs within a slice are distinct), and the set of (guild, chat channel) keys
  subscribed to it; both also for a registry entry that may be absent.
\<close>

definition slices_ok :: "twitchChannelInfo \<Rightarrow> bool" where
  "slices_ok tcInfo =
     (\<forall>gID ds. DiscordChannels tcInfo gID = Some ds \<longrightarrow> ds \<noteq> [] \<and> distinct (map ChannelID ds))"

definition channelKeys :: "twitchChannelInfo \<Rightarrow> (string \<times> string) set" where
  "channelKeys tcInfo = {(gID, cID). cID \<in> ChannelID ` set (guildChannels tcInfo gID)}"

definition entry_ok :: "twitchChannelInfo option \<Rightarrow> bool" where
  "entry_ok entry = (case entry of None \<Rightarrow> True | Some tcInfo \<Rightarrow> slices_ok tcInfo)"

definition entryKeys :: "twitchChannelInfo option \<Rightarrow> (string \<times> string) set" where
  "entryKeys entry = (case entry of None \<Rightarrow> {} | Some tcInfo \<Rightarrow> channelKeys tcInfo)"

text \<open>
  A sequence of registrations for one streaming channel that all succeed, and a sequence of
  unregistrations that all return true; each call comes with the answers of the outside
  during it.
\<close>

fun registerAll :: "string \<Rightarrow> (env \<times> string \<times> string) list \<Rightarrow> world \<Rightarrow> world option" where
  "registerAll twitchID [] w = Some w"
| "registerAll twitchID ((e, gID, cID) # rest) w =
     (case RegisterChannel e twitchID gID cID w of
        Inr (None, w') \<Rightarrow> registerAll twitchID rest w'
      | _ \<Rightarrow> None)"

fun unregisterAll :: "string \<Rightarrow> (env \<times> string \<times> string) list \<Rightarrow> world \<Rightarrow> world option" where
  "unregisterAll twitchID [] w = Some w"
| "unregisterAll twitchID ((e, gID, cID) # rest) w =
     (case UnregisterChannel e twitchID gID cID w of
        Inr (True, w') \<Rightarrow> unregisterAll twitchID rest w'
      | _ \<Rightarrow> None)"

subsection \<open>Example values\<close>

text \<open>
  An outside where every call succeeds, the user lookup knows \<open>Alice\<close> and every goroutine
  runs as soon as it is started; the streaming channel \<open>alice\<close> with one subscriber \<open>c1\<close> in
  guild \<open>g1\<close>; a stream response that lists \<open>alice\<close> as live since instant 400, with the
  embed the monitor builds from it.
\<close>

definition env_ok :: env where
  "env_ok = \<lparr>validateResp = Validated True 200, tokenResp = Token ''token'',
     usersResp = Some [\<lparr>UserDisplayName = ''Alice'', ProfileImageURL = ''http://a''\<rparr>],
     streamsResp = Some [], writeErr = None, clock = 0,
     channelRead = (\<lambda>twitchChannel guild i. 0),
     infoRead = (\<lambda>twitchChannel guild i. twitchChannel)\<rparr>"

definition subscription :: "string \<Rightarrow> bool \<Rightarrow> discordChannel" where
  "subscription cID notified = \<lparr>ChannelID = cID, LiveNotificationSent = notified\<rparr>"

definition alice_info :: "(string \<rightharpoonup> discordChannel list) \<Rightarrow> twitchChannelInfo" where
  "alice_info dcs = \<lparr>DisplayName = ''Alice'', LogoURL = ''http://a'', StreamTitle = [], GameID = [],
     ThumbnailURL = [], StartTime = 0, EndTime = 0, DiscordChannels = dcs\<rparr>"

definition world_of :: "bool \<Rightarrow> registry \<Rightarrow> (string \<rightharpoonup> registry) \<Rightarrow> nat \<Rightarrow> world" where
  "world_of connected reg fs n =
     \<lparr>sess = \<lparr>name = ''session1'', isConnected = connected, twitchData = reg\<rparr>,
      files = fs, writes = n\<rparr>"

definition session_of :: "registry \<Rightarrow> Session" where
  "session_of reg = \<lparr>name = ''session1'', isConnected = True, twitchData = reg\<rparr>"

definition registry1 :: registry where
  "registry1 = [''alice'' \<mapsto> alice_info [''g1'' \<mapsto> [subscription ''c1'' False]]]"

definition live_alice :: stream where
  "live_alice = \<lparr>UserLogin = ''alice'', StreamType = ''live'', Title = ''Speedrun'',
     StreamGameID = ''cat1'', StreamThumbnailURL = ''http://t/{width}x{height}.jpg'',
     StartedAt = 400\<rparr>"

definition live_embed :: MessageEmbed where
  "live_embed = \<lparr>EmbedURL = ''https://www.twitch.tv/Alice'', EmbedTitle = ''Speedrun'',
     ImageURL = ''http://t/1920x1080.jpg'', AuthorName = ''Alice'', AuthorIconURL = ''http://a''\<rparr>"

text \<open>
  The streaming channel \<open>alice\<close> with two subscribers \<open>c1\<close> and \<open>c2\<close> in guild \<open>g1\<close>: not yet
  notified, and notified as live with \<open>alice\<close> offline since instant 100. A pass at a given
  clock reading in which every goroutine runs after the loop that started it has gone one
  iteration further or has ended: with \<open>alice\<close> listed as live, and with no stream listed.
\<close>

definition registry2 :: registry where
  "registry2 =
     [''alice'' \<mapsto> alice_info [''g1'' \<mapsto> [subscription ''c1'' False, subscription ''c2'' False]]]"

definition registry2_off :: registry where
  "registry2_off =
     [''alice'' \<mapsto> (alice_info [''g1'' \<mapsto> [subscription ''c1'' True, subscription ''c2'' True]])
        \<lparr>EndTime := 100\<rparr>]"

definition late_live_pass :: "time \<Rightarrow> env \<times> guilds" where
  "late_live_pass now =
     (env_ok\<lparr>streamsResp := Some [live_alice], clock := now,
             channelRead := (\<lambda>twitchChannel guild i. 1)\<rparr>,
      [''g1'' \<mapsto> True])"

definition late_offline_pass :: "time \<Rightarrow> env \<times> guilds" where
  "late_offline_pass now =
     (env_ok\<lparr>clock := now, channelRead := (\<lambda>twitchChannel guild i. 1)\<rparr>, [''g1'' \<mapsto> True])"

definition three_keys :: "(env \<times> string \<times> string) list" where
  "three_keys = [(env_ok, ''g1'', ''c1''), (env_ok, ''g1'', ''c2''), (env_ok, ''g2'', ''c1'')]"

definition three_keys_shuffled :: "(env \<times> string \<times> string) list" where
  "three_keys_shuffled = [(env_ok, ''g2'', ''c1''), (env_ok, ''g1'', ''c1''), (env_ok, ''g1'', ''c2'')]"

section \<open>Lemmas about the operations\<close>

lemmas example_defs = env_ok_def subscription_def alice_info_def world_of_def registry1_def

lemmas operation_defs = RegisterChannel_def appendChannel_def UnregisterChannel_def
  validateAndRefreshAuthToken_def GetAuthToken_def getChannelIdx_def guildChannels_def
  remove_slice_def WriteGobToDisk_def Let_def

lemma validate_keeps_registry:
  "twitchData (snd (validateAndRefreshAuthToken e ts)) = twitchData ts"
  by (simp add: validateAndRefreshAuthToken_def GetAuthToken_def
      split: validate_resp.splits token_resp.splits)

lemma scanChannels_absent:
  "scanChannels ds c i = - 1 \<longleftrightarrow> c \<notin> ChannelID ` set ds" if "0 \<le> i"
  using that
proof (induction ds arbitrary: i)
  case Nil
  then show ?case by simp
next
  case (Cons d ds)
  have "0 \<le> i + 1" using Cons.prems by simp
  from Cons.IH[OF this] Cons.prems show ?case by auto
qed

lemma scanChannels_range:
  "0 \<le> i \<Longrightarrow>
     scanChannels ds c i = - 1
     \<or> (i \<le> scanChannels ds c i \<and> scanChannels ds c i < i + int (length ds))"
proof (induction ds arbitrary: i)
  case Nil
  then show ?case by simp
next
  case (Cons d ds)
  have "0 \<le> i + 1" using Cons.prems by simp
  from Cons.IH[OF this] show ?case by auto
qed

lemma scanChannels_found:
  "0 \<le> i \<Longrightarrow> scanChannels ds c i \<noteq> - 1 \<Longrightarrow>
     ChannelID (ds ! nat (scanChannels ds c i - i)) = c"
proof (induction ds arbitrary: i)
  case Nil
  then show ?case by simp
next
  case (Cons d ds)
  show ?case
  proof (cases "ChannelID d = c")
    case True
    then show ?thesis by simp
  next
    case False
    have i1: "0 \<le> i + 1" using Cons.prems by simp
    have ne: "scanChannels ds c (i + 1) \<noteq> - 1" using Cons.prems False by simp
    from scanChannels_range[OF i1, of ds c] ne
    have "i + 1 \<le> scanChannels ds c (i + 1)" by auto
    then have "nat (scanChannels ds c (i + 1) - i)
                 = Suc (nat (scanChannels ds c (i + 1) - (i + 1)))"
      by linarith
    with Cons.IH[OF i1 ne] False show ?thesis by simp
  qed
qed

lemma getChannelIdx_negative:
  "getChannelIdx t twitchID gID cID < 0 \<longleftrightarrow> \<not> subscribed (twitchData t) twitchID gID cID"
proof (cases "twitchData t twitchID")
  case None
  then show ?thesis by (simp add: getChannelIdx_def subscribed_def)
next
  case (Some tcInfo)
  from scanChannels_range[of 0 "guildChannels tcInfo gID" cID]
       scanChannels_absent[of 0 "guildChannels tcInfo gID" cID]
  show ?thesis using Some by (auto simp add: getChannelIdx_def subscribed_def)
qed

lemma appendChannel_success:
  assumes "appendChannel e twitchID gID cID w = Inr (None, w1)"
  shows "\<exists>tcInfo. twitchData (sess w) twitchID = Some tcInfo
           \<and> cID \<notin> ChannelID ` set (guildChannels tcInfo gID)
           \<and> twitchData (sess w1) = (twitchData (sess w))(twitchID \<mapsto>
                 tcInfo\<lparr>DiscordChannels := (DiscordChannels tcInfo)
                   (gID \<mapsto> guildChannels tcInfo gID
                            @ [\<lparr>ChannelID = cID, LiveNotificationSent = False\<rparr>])\<rparr>)"
proof -
  from assms have neg: "getChannelIdx (sess w) twitchID gID cID < 0"
    by (auto simp add: appendChannel_def split: if_splits)
  then have ns: "\<not> subscribed (twitchData (sess w)) twitchID gID cID"
    by (simp add: getChannelIdx_negative)
  from assms neg obtain tcInfo where tc: "twitchData (sess w) twitchID = Some tcInfo"
    by (auto simp add: appendChannel_def split: option.splits)
  from ns tc have fresh: "cID \<notin> ChannelID ` set (guildChannels tcInfo gID)"
    by (simp add: subscribed_def)
  from assms neg tc have "twitchData (sess w1) = (twitchData (sess w))(twitchID \<mapsto>
                 tcInfo\<lparr>DiscordChannels := (DiscordChannels tcInfo)
                   (gID \<mapsto> guildChannels tcInfo gID
                            @ [\<lparr>ChannelID = cID, LiveNotificationSent = False\<rparr>])\<rparr>)"
    by (auto simp add: appendChannel_def Let_def WriteGobToDisk_def split: option.splits)
  with tc fresh show ?thesis by blast
qed

lemma appendChannel_registered:
  "subscribed (twitchData (sess w)) twitchID gID cID \<Longrightarrow>
     appendChannel e twitchID gID cID w = Inr (Some ErrTwitchUserRegistered, w)"
  using getChannelIdx_negative[of "sess w" twitchID gID cID]
  by (simp add: appendChannel_def)

lemma RegisterChannel_entry:
  assumes "RegisterChannel e twitchID gID cID w = Inr (None, w1)"
  shows "\<exists>tcInfo. cID \<notin> ChannelID ` set (guildChannels tcInfo gID)
           \<and> (case twitchData (sess w) twitchID of
                 None \<Rightarrow> DiscordChannels tcInfo = Map.empty
               | Some old \<Rightarrow> tcInfo = old)
           \<and> twitchData (sess w1) = (twitchData (sess w))(twitchID \<mapsto>
                 tcInfo\<lparr>DiscordChannels := (DiscordChannels tcInfo)
                   (gID \<mapsto> guildChannels tcInfo gID
                            @ [\<lparr>ChannelID = cID, LiveNotificationSent = False\<rparr>])\<rparr>)"
proof (cases "twitchData (sess w) twitchID")
  case (Some old)
  with assms have "appendChannel e twitchID gID cID w = Inr (None, w1)"
    by (simp add: RegisterChannel_def)
  from appendChannel_success[OF this] Some show ?thesis by auto
next
  case None
  obtain ok t1 where v: "validateAndRefreshAuthToken e (sess w) = (ok, t1)"
    by (cases "validateAndRefreshAuthToken e (sess w)")
  from validate_keeps_registry[of e "sess w"] v
  have t1: "twitchData t1 = twitchData (sess w)" by simp
  from assms None v have ok: "ok"
    by (auto simp add: RegisterChannel_def split: if_splits)
  from assms None v ok obtain u us where us: "usersResp e = Some (u # us)"
    by (cases "usersResp e"; cases "the (usersResp e)") (auto simp add: RegisterChannel_def)
  let ?new = "\<lparr>DisplayName = UserDisplayName u, LogoURL = ProfileImageURL u,
              StreamTitle = [], GameID = [], ThumbnailURL = [],
              StartTime = 0, EndTime = 0, DiscordChannels = Map.empty\<rparr>"
  let ?w = "w\<lparr>sess := t1\<lparr>twitchData := (twitchData t1)(twitchID \<mapsto> ?new)\<rparr>\<rparr>"
  from assms None v ok us have a: "appendChannel e twitchID gID cID ?w = Inr (None, w1)"
    by (simp add: RegisterChannel_def)
  from appendChannel_success[OF a] t1
  have "cID \<notin> ChannelID ` set (guildChannels ?new gID)
        \<and> twitchData (sess w1) = (twitchData (sess w))(twitchID \<mapsto>
             ?new\<lparr>DiscordChannels := (DiscordChannels ?new)
               (gID \<mapsto> guildChannels ?new gID
                        @ [\<lparr>ChannelID = cID, LiveNotificationSent = False\<rparr>])\<rparr>)"
    by auto
  moreover have "DiscordChannels ?new = Map.empty" by simp
  ultimately show ?thesis using None by (intro exI[of _ ?new]) simp
qed

lemma RegisterChannel_success:
  assumes "RegisterChannel e twitchID gID cID w = Inr (None, w1)"
  shows "\<exists>tcInfo. cID \<notin> ChannelID ` set (guildChannels tcInfo gID)
           \<and> twitchData (sess w1) = (twitchData (sess w))(twitchID \<mapsto>
                 tcInfo\<lparr>DiscordChannels := (DiscordChannels tcInfo)
                   (gID \<mapsto> guildChannels tcInfo gID
                            @ [\<lparr>ChannelID = cID, LiveNotificationSent = False\<rparr>])\<rparr>)"
  using RegisterChannel_entry[OF assms] by blast

lemma register_first:
  "RegisterChannel env_ok ''alice'' ''g1'' ''c1'' (world_of True Map.empty Map.empty 0)
     = Inr (None, world_of True registry1 [''session1'' \<mapsto> registry1] 1)"
  by (simp add: example_defs operation_defs)

lemmas monitor_defs = monitorCycle_def notifyChannel_def markLive_def liveMessages_def
  markOffline_def offlineMessages_def closureReads_def Since_def createDiscordEmbedMessage_def
  Replace_def validateAndRefreshAuthToken_def GetAuthToken_def guildChannels_def Let_def
  session_of_def live_alice_def

lemma remove_slice_mset:
  assumes "j < length s"
  shows "remove_slice s (int j) = Inr (take (length s - 1) (s[length s - 1 := s ! j, j := s ! (length s - 1)]))"
    and "mset (take (length s - 1) (s[length s - 1 := s ! j, j := s ! (length s - 1)]))
           = mset s - {#s ! j#}"
proof -
  let ?n = "length s"
  let ?ys = "s[?n - 1 := s ! j, j := s ! (?n - 1)]"
  show "remove_slice s (int j) = Inr (take (?n - 1) ?ys)"
    using assms by (simp add: remove_slice_def Let_def)
  have n: "?n - 1 < ?n" using assms by simp
  have perm: "mset ?ys = mset s"
    using mset_swap[OF assms n] .
  have len: "length ?ys = ?n" by simp
  have lastel: "?ys ! (?n - 1) = s ! j"
    using assms by (cases "j = ?n - 1") simp_all
  have "?ys = take (Suc (?n - 1)) ?ys" using assms by simp
  also have "\<dots> = take (?n - 1) ?ys @ [?ys ! (?n - 1)]"
    using n len by (simp only: take_Suc_conv_app_nth)
  finally have "mset ?ys = mset (take (?n - 1) ?ys @ [s ! j])"
    using lastel by simp
  then have "mset ?ys = mset (take (?n - 1) ?ys) + {#s ! j#}"
    by simp
  with perm show "mset (take (?n - 1) ?ys) = mset s - {#s ! j#}"
    by simp
qed


lemma remove_slice_ids:
  fixes s :: "discordChannel list"
  assumes inside: "j < length s" and d: "distinct (map ChannelID s)"
    and r: "r = take (length s - 1) (s[length s - 1 := s ! j, j := s ! (length s - 1)])"
  shows "distinct (map ChannelID r)"
    and "ChannelID ` set r = ChannelID ` set s - {ChannelID (s ! j)}"
proof -
  have m: "mset r = mset s - {#s ! j#}"
    unfolding r using remove_slice_mset(2)[OF inside] .
  have sub: "{#s ! j#} \<subseteq># mset s" using inside by simp
  have "mset (map ChannelID r) = image_mset ChannelID (mset s - {#s ! j#})"
    by (simp add: m)
  also have "\<dots> = image_mset ChannelID (mset s) - image_mset ChannelID {#s ! j#}"
    using sub by (rule image_mset_Diff)
  also have "\<dots> = mset (remove1 (ChannelID (s ! j)) (map ChannelID s))"
    by simp
  finally have eq: "mset (map ChannelID r) = mset (remove1 (ChannelID (s ! j)) (map ChannelID s))" .
  from d have "distinct (remove1 (ChannelID (s ! j)) (map ChannelID s))" by simp
  with mset_eq_imp_distinct_iff[OF eq] show "distinct (map ChannelID r)" by simp
  from mset_eq_setD[OF eq] d show "ChannelID ` set r = ChannelID ` set s - {ChannelID (s ! j)}"
    by simp
qed

lemma UnregisterChannel_found:
  assumes "twitchData (sess w) twitchID = Some tcInfo"
      and "0 \<le> getChannelIdx (sess w) twitchID gID cID"
      and "remove_slice (guildChannels tcInfo gID) (getChannelIdx (sess w) twitchID gID cID) = Inr s"
  shows "\<exists>w'. UnregisterChannel e twitchID gID cID w = Inr (True, w')
           \<and> twitchData (sess w')
               = (if (if s = [] then (DiscordChannels tcInfo)(gID := None)
                      else (DiscordChannels tcInfo)(gID \<mapsto> s)) = Map.empty
                  then (twitchData (sess w))(twitchID := None)
                  else (twitchData (sess w))(twitchID \<mapsto> tcInfo\<lparr>DiscordChannels :=
                         (if s = [] then (DiscordChannels tcInfo)(gID := None)
                          else (DiscordChannels tcInfo)(gID \<mapsto> s))\<rparr>))"
  using assms
  by (simp add: UnregisterChannel_def Let_def WriteGobToDisk_def case_prod_beta
      split: option.splits)

lemma slices_ok_empty_iff:
  "slices_ok tcInfo \<Longrightarrow> DiscordChannels tcInfo = Map.empty \<longleftrightarrow> channelKeys tcInfo = {}"
proof
  assume "DiscordChannels tcInfo = Map.empty"
  then show "channelKeys tcInfo = {}" by (simp add: channelKeys_def guildChannels_def)
next
  assume ok: "slices_ok tcInfo" and k: "channelKeys tcInfo = {}"
  show "DiscordChannels tcInfo = Map.empty"
  proof (rule ext)
    fix gID
    show "DiscordChannels tcInfo gID = None"
    proof (cases "DiscordChannels tcInfo gID")
      case None
      then show ?thesis .
    next
      case (Some ds)
      with ok have "ds \<noteq> []" by (simp add: slices_ok_def)
      then obtain d where "d \<in> set ds" by (cases ds) auto
      with Some have "(gID, ChannelID d) \<in> channelKeys tcInfo"
        by (auto simp add: channelKeys_def guildChannels_def)
      with k show ?thesis by simp
    qed
  qed
qed

lemma unregister_step:
  assumes entry: "twitchData (sess w) twitchID = Some tcInfo"
      and ok: "slices_ok tcInfo"
      and mem: "(gID, cID) \<in> channelKeys tcInfo"
  shows "\<exists>w'. UnregisterChannel e twitchID gID cID w = Inr (True, w')
           \<and> (\<forall>other. other \<noteq> twitchID \<longrightarrow> twitchData (sess w') other = twitchData (sess w) other)
           \<and> (if channelKeys tcInfo = {(gID, cID)} then twitchData (sess w') twitchID = None
               else \<exists>tcInfo'. twitchData (sess w') twitchID = Some tcInfo' \<and> slices_ok tcInfo'
                      \<and> channelKeys tcInfo' = channelKeys tcInfo - {(gID, cID)})"
proof -
  let ?ds = "guildChannels tcInfo gID"
  from mem have cin: "cID \<in> ChannelID ` set ?ds" by (simp add: channelKeys_def)
  then have sl: "DiscordChannels tcInfo gID = Some ?ds"
    by (cases "DiscordChannels tcInfo gID") (auto simp add: guildChannels_def)
  with ok have dist: "distinct (map ChannelID ?ds)" by (simp add: slices_ok_def)
  let ?idx = "scanChannels ?ds cID 0"
  from cin scanChannels_absent[of 0 ?ds cID] have ne: "?idx \<noteq> - 1" by simp
  with scanChannels_range[of 0 ?ds cID] have rng: "0 \<le> ?idx" "?idx < int (length ?ds)" by auto
  from scanChannels_found[of 0 ?ds cID] ne have idc: "ChannelID (?ds ! nat ?idx) = cID" by simp
  let ?j = "nat ?idx"
  have j: "?j < length ?ds" using rng by simp
  have ij: "int ?j = ?idx" using rng by simp
  let ?s = "take (length ?ds - 1) (?ds[length ?ds - 1 := ?ds ! ?j, ?j := ?ds ! (length ?ds - 1)])"
  have idx: "getChannelIdx (sess w) twitchID gID cID = ?idx"
    using entry by (simp add: getChannelIdx_def)
  have rm: "remove_slice ?ds (getChannelIdx (sess w) twitchID gID cID) = Inr ?s"
    using remove_slice_mset(1)[OF j] ij idx by simp
  have sdist: "distinct (map ChannelID ?s)"
    and sids: "ChannelID ` set ?s = ChannelID ` set ?ds - {cID}"
    using remove_slice_ids[OF j dist refl] idc by simp_all
  let ?dcs2 = "if ?s = [] then (DiscordChannels tcInfo)(gID := None)
               else (DiscordChannels tcInfo)(gID \<mapsto> ?s)"
  let ?tc' = "tcInfo\<lparr>DiscordChannels := ?dcs2\<rparr>"
  let ?td = "if ?dcs2 = Map.empty then (twitchData (sess w))(twitchID := None)
             else (twitchData (sess w))(twitchID \<mapsto> ?tc')"
  have found: "0 \<le> getChannelIdx (sess w) twitchID gID cID"
    using rng(1) idx by simp
  from UnregisterChannel_found[OF entry found rm, of e]
  obtain w' where res: "UnregisterChannel e twitchID gID cID w = Inr (True, w')"
    and td: "twitchData (sess w') = ?td"
    by blast
  have ok': "slices_ok ?tc'"
    using ok sdist by (auto simp add: slices_ok_def)
  have keys': "channelKeys ?tc' = channelKeys tcInfo - {(gID, cID)}"
  proof -
    have "cID' \<in> ChannelID ` set (guildChannels ?tc' gID')
            \<longleftrightarrow> cID' \<in> ChannelID ` set (guildChannels tcInfo gID') \<and> (gID', cID') \<noteq> (gID, cID)"
      for gID' cID'
    proof (cases "gID' = gID")
      case True
      have "guildChannels ?tc' gID = ?s"
        by (simp add: guildChannels_def)
      with sids True show ?thesis by auto
    next
      case False
      then have "guildChannels ?tc' gID' = guildChannels tcInfo gID'"
        by (simp add: guildChannels_def)
      with False show ?thesis by simp
    qed
    then show ?thesis by (auto simp add: channelKeys_def)
  qed
  have others: "\<forall>other. other \<noteq> twitchID \<longrightarrow> twitchData (sess w') other = twitchData (sess w) other"
    by (simp add: td)
  have last: "?dcs2 = Map.empty \<longleftrightarrow> channelKeys tcInfo = {(gID, cID)}"
  proof -
    have "?dcs2 = Map.empty \<longleftrightarrow> channelKeys ?tc' = {}"
      using slices_ok_empty_iff[OF ok'] by simp
    also have "\<dots> \<longleftrightarrow> channelKeys tcInfo = {(gID, cID)}"
      using keys' mem by auto
    finally show ?thesis .
  qed
  show ?thesis
  proof (cases "channelKeys tcInfo = {(gID, cID)}")
    case True
    with last have "?dcs2 = Map.empty" by simp
    then have "twitchData (sess w') twitchID = None" by (simp add: td)
    with res others True show ?thesis by simp
  next
    case False
    with last have "?dcs2 \<noteq> Map.empty" by simp
    then have "twitchData (sess w') twitchID = Some ?tc'" by (simp add: td)
    with res others False ok' keys' show ?thesis by simp
  qed
qed


lemma register_step:
  assumes reg: "RegisterChannel e twitchID gID cID w = Inr (None, w1)"
      and ok: "entry_ok (twitchData (sess w) twitchID)"
  shows "entry_ok (twitchData (sess w1) twitchID)
         \<and> entryKeys (twitchData (sess w1) twitchID)
             = insert (gID, cID) (entryKeys (twitchData (sess w) twitchID))
         \<and> (\<forall>other. other \<noteq> twitchID \<longrightarrow> twitchData (sess w1) other = twitchData (sess w) other)"
proof -
  from RegisterChannel_entry[OF reg] obtain tcInfo where
    fresh: "cID \<notin> ChannelID ` set (guildChannels tcInfo gID)" and
    old: "case twitchData (sess w) twitchID of
            None \<Rightarrow> DiscordChannels tcInfo = Map.empty | Some old \<Rightarrow> tcInfo = old" and
    td: "twitchData (sess w1) = (twitchData (sess w))(twitchID \<mapsto>
                 tcInfo\<lparr>DiscordChannels := (DiscordChannels tcInfo)
                   (gID \<mapsto> guildChannels tcInfo gID
                            @ [\<lparr>ChannelID = cID, LiveNotificationSent = False\<rparr>])\<rparr>)"
    by blast
  let ?tc = "tcInfo\<lparr>DiscordChannels := (DiscordChannels tcInfo)
               (gID \<mapsto> guildChannels tcInfo gID
                        @ [\<lparr>ChannelID = cID, LiveNotificationSent = False\<rparr>])\<rparr>"
  have sok: "slices_ok tcInfo"
    using old ok by (cases "twitchData (sess w) twitchID") (simp_all add: entry_ok_def slices_ok_def)
  have keys0: "entryKeys (twitchData (sess w) twitchID) = channelKeys tcInfo"
    using old
    by (cases "twitchData (sess w) twitchID")
       (simp_all add: entryKeys_def channelKeys_def guildChannels_def)
  have dist: "distinct (map ChannelID (guildChannels tcInfo gID))"
    using sok by (cases "DiscordChannels tcInfo gID") (simp_all add: slices_ok_def guildChannels_def)
  have sok': "slices_ok ?tc"
    using sok dist fresh by (auto simp add: slices_ok_def)
  have keys': "channelKeys ?tc = insert (gID, cID) (channelKeys tcInfo)"
  proof -
    have "cID' \<in> ChannelID ` set (guildChannels ?tc gID')
            \<longleftrightarrow> (gID', cID') = (gID, cID) \<or> cID' \<in> ChannelID ` set (guildChannels tcInfo gID')"
      for gID' cID'
    proof (cases "gID' = gID")
      case True
      have "guildChannels ?tc gID
              = guildChannels tcInfo gID @ [\<lparr>ChannelID = cID, LiveNotificationSent = False\<rparr>]"
        by (simp add: guildChannels_def)
      with True show ?thesis by auto
    next
      case False
      then have "guildChannels ?tc gID' = guildChannels tcInfo gID'"
        by (simp add: guildChannels_def)
      with False show ?thesis by simp
    qed
    then show ?thesis by (auto simp add: channelKeys_def)
  qed
  from sok' keys' keys0 show ?thesis
    by (simp add: td entry_ok_def entryKeys_def)
qed

lemma registerAll_keys:
  "registerAll twitchID rs w = Some w1 \<Longrightarrow>
   entry_ok (twitchData (sess w) twitchID) \<Longrightarrow>
     entry_ok (twitchData (sess w1) twitchID)
     \<and> entryKeys (twitchData (sess w1) twitchID)
         = entryKeys (twitchData (sess w) twitchID) \<union> set (map snd rs)
     \<and> (\<forall>other. other \<noteq> twitchID \<longrightarrow> twitchData (sess w1) other = twitchData (sess w) other)"
proof (induction rs arbitrary: w)
  case Nil
  then show ?case by simp
next
  case (Cons r rs)
  obtain e gID cID where r: "r = (e, gID, cID)" by (cases r)
  from Cons.prems(1) r obtain w' where
    first: "RegisterChannel e twitchID gID cID w = Inr (None, w')" and
    rest: "registerAll twitchID rs w' = Some w1"
    by (auto split: sum.splits option.splits)
  from register_step[OF first Cons.prems(2)] Cons.IH[OF rest] r show ?case
    by auto
qed

lemma unregisterAll_all:
  "entry_ok (twitchData (sess w) twitchID) \<Longrightarrow>
   entryKeys (twitchData (sess w) twitchID) = set (map snd us) \<Longrightarrow>
   distinct (map snd us) \<Longrightarrow> us \<noteq> [] \<Longrightarrow>
     \<exists>w2. unregisterAll twitchID us w = Some w2
          \<and> twitchData (sess w2) = (twitchData (sess w))(twitchID := None)"
proof (induction us arbitrary: w)
  case Nil
  then show ?case by simp
next
  case (Cons u us)
  obtain e gID cID where u: "u = (e, gID, cID)" by (cases u)
  from Cons.prems(2) u have mem0: "(gID, cID) \<in> entryKeys (twitchData (sess w) twitchID)"
    by simp
  then obtain tcInfo where entry: "twitchData (sess w) twitchID = Some tcInfo"
    by (cases "twitchData (sess w) twitchID") (simp_all add: entryKeys_def)
  from Cons.prems(1) entry have ok: "slices_ok tcInfo" by (simp add: entry_ok_def)
  from mem0 entry have mem: "(gID, cID) \<in> channelKeys tcInfo" by (simp add: entryKeys_def)
  from Cons.prems(2) entry u have keys: "channelKeys tcInfo = insert (gID, cID) (set (map snd us))"
    by (simp add: entryKeys_def)
  from Cons.prems(3) u have fresh: "(gID, cID) \<notin> set (map snd us)" and dist: "distinct (map snd us)"
    by simp_all
  from unregister_step[OF entry ok mem, of e] obtain w' where
    step: "UnregisterChannel e twitchID gID cID w = Inr (True, w')" and
    others: "\<forall>other. other \<noteq> twitchID \<longrightarrow> twitchData (sess w') other = twitchData (sess w) other" and
    after: "if channelKeys tcInfo = {(gID, cID)} then twitchData (sess w') twitchID = None
            else \<exists>tcInfo'. twitchData (sess w') twitchID = Some tcInfo' \<and> slices_ok tcInfo'
                   \<and> channelKeys tcInfo' = channelKeys tcInfo - {(gID, cID)}"
    by blast
  show ?case
  proof (cases "us = []")
    case True
    with keys have "channelKeys tcInfo = {(gID, cID)}" by simp
    with after have gone: "twitchData (sess w') twitchID = None" by simp
    have td0: "twitchData (sess w') = (twitchData (sess w))(twitchID := None)"
      using gone others by (auto simp add: fun_eq_iff)
    have "unregisterAll twitchID (u # us) w = Some w'"
      using step True u by simp
    with td0 show ?thesis by blast
  next
    case False
    then have "set (map snd us) \<noteq> {}" by simp
    then obtain k where k: "k \<in> set (map snd us)" by (meson ex_in_conv)
    with fresh have "k \<noteq> (gID, cID)" by metis
    moreover from k keys have "k \<in> channelKeys tcInfo" by (metis insertCI)
    ultimately have "channelKeys tcInfo \<noteq> {(gID, cID)}" by (metis singletonD)
    with after obtain tcInfo' where
      entry': "twitchData (sess w') twitchID = Some tcInfo'" and
      ok': "slices_ok tcInfo'" and
      keys': "channelKeys tcInfo' = channelKeys tcInfo - {(gID, cID)}"
      by auto
    have k: "entryKeys (twitchData (sess w') twitchID) = set (map snd us)"
      using entry' keys' keys fresh by (simp add: entryKeys_def)
    have o: "entry_ok (twitchData (sess w') twitchID)"
      using entry' ok' by (simp add: entry_ok_def)
    from Cons.IH[OF o k dist False] obtain w2 where
      rest: "unregisterAll twitchID us w' = Some w2" and
      td: "twitchData (sess w2) = (twitchData (sess w'))(twitchID := None)"
      by blast
    have td2: "twitchData (sess w2) = (twitchData (sess w))(twitchID := None)"
      using td others by (auto simp add: fun_eq_iff)
    have "unregisterAll twitchID (u # us) w = Some w2"
      using step rest u by simp
    with td2 show ?thesis by blast
  qed
qed

lemma unregister_existing:
  assumes "subscribed (twitchData (sess w)) twitchID gID cID"
  shows "\<exists>w' tcInfo d s.
           twitchData (sess w) twitchID = Some tcInfo
         \<and> UnregisterChannel e twitchID gID cID w = Inr (True, w')
         \<and> d \<in> set (guildChannels tcInfo gID) \<and> ChannelID d = cID
         \<and> mset s = mset (guildChannels tcInfo gID) - {#d#}
         \<and> twitchData (sess w')
             = (if s = [] \<and> (DiscordChannels tcInfo)(gID := None) = Map.empty
                then (twitchData (sess w))(twitchID := None)
                else (twitchData (sess w))(twitchID \<mapsto> tcInfo\<lparr>DiscordChannels :=
                       (DiscordChannels tcInfo)(gID := (if s = [] then None else Some s))\<rparr>))"
proof -
  from assms obtain tcInfo where entry: "twitchData (sess w) twitchID = Some tcInfo"
    and cin: "cID \<in> ChannelID ` set (guildChannels tcInfo gID)"
    by (auto simp add: subscribed_def split: option.splits)
  let ?ds = "guildChannels tcInfo gID"
  let ?idx = "scanChannels ?ds cID 0"
  from cin scanChannels_absent[of 0 ?ds cID] have ne: "?idx \<noteq> - 1" by simp
  with scanChannels_range[of 0 ?ds cID] have rng: "0 \<le> ?idx" "?idx < int (length ?ds)" by auto
  from scanChannels_found[of 0 ?ds cID] ne have idc: "ChannelID (?ds ! nat ?idx) = cID" by simp
  let ?j = "nat ?idx"
  have j: "?j < length ?ds" using rng by simp
  have ij: "int ?j = ?idx" using rng by simp
  let ?s = "take (length ?ds - 1) (?ds[length ?ds - 1 := ?ds ! ?j, ?j := ?ds ! (length ?ds - 1)])"
  have idx: "getChannelIdx (sess w) twitchID gID cID = ?idx"
    using entry by (simp add: getChannelIdx_def)
  have rm: "remove_slice ?ds (getChannelIdx (sess w) twitchID gID cID) = Inr ?s"
    using remove_slice_mset(1)[OF j] ij idx by simp
  have ms: "mset ?s = mset ?ds - {#?ds ! ?j#}"
    using remove_slice_mset(2)[OF j] .
  have din: "?ds ! ?j \<in> set ?ds" using j by simp
  have found: "0 \<le> getChannelIdx (sess w) twitchID gID cID"
    using rng(1) idx by simp
  from UnregisterChannel_found[OF entry found rm, of e]
  obtain w' where res: "UnregisterChannel e twitchID gID cID w = Inr (True, w')"
    and td: "twitchData (sess w')
               = (if (if ?s = [] then (DiscordChannels tcInfo)(gID := None)
                      else (DiscordChannels tcInfo)(gID \<mapsto> ?s)) = Map.empty
                  then (twitchData (sess w))(twitchID := None)
                  else (twitchData (sess w))(twitchID \<mapsto> tcInfo\<lparr>DiscordChannels :=
                         (if ?s = [] then (DiscordChannels tcInfo)(gID := None)
                          else (DiscordChannels tcInfo)(gID \<mapsto> ?s))\<rparr>))"
    by blast
  have td': "twitchData (sess w')
             = (if ?s = [] \<and> (DiscordChannels tcInfo)(gID := None) = Map.empty
                then (twitchData (sess w))(twitchID := None)
                else (twitchData (sess w))(twitchID \<mapsto> tcInfo\<lparr>DiscordChannels :=
                       (DiscordChannels tcInfo)(gID := (if ?s = [] then None else Some ?s))\<rparr>))"
    unfolding td by (cases "?s = []") simp_all
  from entry res din idc ms td' show ?thesis by blast
qed

section \<open>Registration\<close>

text \<open>
  C4. When a call of \<open>RegisterChannel\<close> for a streaming channel, a guild and a chat channel
  has succeeded, a second call with the same three arguments returns the already-registered
  error and hands back the world it was given (registry, snapshot files and write count
  untouched), whatever the outside answers; and the guild's slice of that streaming channel
  holds exactly one subscription with that chat channel ID.
\<close>

theorem register_twice:
  assumes "RegisterChannel e1 twitchID gID cID w = Inr (None, w1)"
  shows "RegisterChannel e2 twitchID gID cID w1 = Inr (Some ErrTwitchUserRegistered, w1)
         \<and> (\<exists>tcInfo. twitchData (sess w1) twitchID = Some tcInfo
              \<and> length (filter (\<lambda>d. ChannelID d = cID) (guildChannels tcInfo gID)) = 1)"
proof -
  from RegisterChannel_success[OF assms] obtain tcInfo where
    fresh: "cID \<notin> ChannelID ` set (guildChannels tcInfo gID)" and
    td: "twitchData (sess w1) = (twitchData (sess w))(twitchID \<mapsto>
                 tcInfo\<lparr>DiscordChannels := (DiscordChannels tcInfo)
                   (gID \<mapsto> guildChannels tcInfo gID
                            @ [\<lparr>ChannelID = cID, LiveNotificationSent = False\<rparr>])\<rparr>)"
    by blast
  let ?tc = "tcInfo\<lparr>DiscordChannels := (DiscordChannels tcInfo)
               (gID \<mapsto> guildChannels tcInfo gID
                        @ [\<lparr>ChannelID = cID, LiveNotificationSent = False\<rparr>])\<rparr>"
  have e: "twitchData (sess w1) twitchID = Some ?tc" using td by simp
  have gc: "guildChannels ?tc gID
              = guildChannels tcInfo gID @ [\<lparr>ChannelID = cID, LiveNotificationSent = False\<rparr>]"
    by (simp add: guildChannels_def)
  have sub: "subscribed (twitchData (sess w1)) twitchID gID cID"
    using e gc by (simp add: subscribed_def)
  have nomatch: "filter (\<lambda>d. ChannelID d = cID) (guildChannels tcInfo gID) = []"
    using fresh by (auto simp add: filter_empty_conv)
  have one: "length (filter (\<lambda>d. ChannelID d = cID) (guildChannels ?tc gID)) = 1"
    using nomatch by (simp add: gc)
  have "RegisterChannel e2 twitchID gID cID w1 = Inr (Some ErrTwitchUserRegistered, w1)"
    using e appendChannel_registered[OF sub] by (simp add: RegisterChannel_def)
  with e one show ?thesis by blast
qed

theorem register_twice_witness:
  "RegisterChannel env_ok ''alice'' ''g1'' ''c1'' (world_of True Map.empty Map.empty 0)
     = Inr (None, world_of True registry1 [''session1'' \<mapsto> registry1] 1)
   \<and> RegisterChannel env_ok ''alice'' ''g1'' ''c1''
        (world_of True registry1 [''session1'' \<mapsto> registry1] 1)
     = Inr (Some ErrTwitchUserRegistered, world_of True registry1 [''session1'' \<mapsto> registry1] 1)
   \<and> (\<exists>tcInfo. twitchData (sess (world_of True registry1 [''session1'' \<mapsto> registry1] 1)) ''alice''
                  = Some tcInfo
              \<and> length (filter (\<lambda>d. ChannelID d = ''c1'') (guildChannels tcInfo ''g1'')) = 1)"
  using register_twice[OF register_first, of env_ok] register_first by simp

text \<open>
  C8. For a streaming channel that is not in the registry, when the validation and refresh
  of the token fails, \<open>RegisterChannel\<close> returns the invalid-token error; the world it hands
  back differs from the one it was given only in the session that the validation step
  returned, whose registry is the registry before the call: no channel entry and no
  subscription is created, and no snapshot is written.
\<close>

theorem register_invalid_token:
  "twitchData (sess w) twitchID = None \<Longrightarrow>
   \<not> fst (validateAndRefreshAuthToken e (sess w)) \<Longrightarrow>
     RegisterChannel e twitchID gID cID w =
       Inr (Some ErrInvalidToken, w\<lparr>sess := snd (validateAndRefreshAuthToken e (sess w))\<rparr>)
     \<and> twitchData (snd (validateAndRefreshAuthToken e (sess w))) = twitchData (sess w)"
  by (simp add: RegisterChannel_def Let_def validate_keeps_registry case_prod_beta)

theorem register_invalid_token_witness:
  "twitchData (sess (world_of True registry1 Map.empty 0)) ''bob'' = None
   \<and> \<not> fst (validateAndRefreshAuthToken
         (env_ok\<lparr>validateResp := Validated False 200, tokenResp := TokenFailed\<rparr>)
         (sess (world_of True registry1 Map.empty 0)))
   \<and> RegisterChannel (env_ok\<lparr>validateResp := Validated False 200, tokenResp := TokenFailed\<rparr>)
        ''bob'' ''g1'' ''c1'' (world_of True registry1 Map.empty 0)
       = Inr (Some ErrInvalidToken, world_of False registry1 Map.empty 0)"
proof -
  let ?e = "env_ok\<lparr>validateResp := Validated False 200, tokenResp := TokenFailed\<rparr>"
  let ?w = "world_of True registry1 Map.empty 0"
  have absent: "twitchData (sess ?w) ''bob'' = None"
    by (simp add: example_defs)
  have v: "validateAndRefreshAuthToken ?e (sess ?w) = (False, sess (world_of False registry1 Map.empty 0))"
    by (simp add: example_defs validateAndRefreshAuthToken_def GetAuthToken_def)
  have invalid: "\<not> fst (validateAndRefreshAuthToken ?e (sess ?w))"
    by (simp add: v)
  from register_invalid_token[OF absent invalid, of "''g1''" "''c1''"] absent invalid
  show ?thesis by (simp add: v) (simp add: world_of_def)
qed

text \<open>
  C10. The claim is that a first registration whose user lookup fails is answered with the
  channel-does-not-exist error. Evaluated for the unknown streaming channel \<open>bob\<close> with a
  token that validates: when the lookup call fails, the response is nil, the source logs the
  error and then reads the users of the response, and \<open>RegisterChannel\<close> panics instead of
  returning. The channel-does-not-exist error is what a lookup returns that succeeds with
  no user in its response; the registry is unchanged then.
\<close>

theorem register_lookup_failure_panics:
  "twitchData (sess (world_of True registry1 Map.empty 0)) ''bob'' = None
   \<and> fst (validateAndRefreshAuthToken (env_ok\<lparr>usersResp := None\<rparr>)
         (sess (world_of True registry1 Map.empty 0)))
   \<and> RegisterChannel (env_ok\<lparr>usersResp := None\<rparr>) ''bob'' ''g1'' ''c1''
         (world_of True registry1 Map.empty 0)
       = Inl NilDereference
   \<and> RegisterChannel (env_ok\<lparr>usersResp := Some []\<rparr>) ''bob'' ''g1'' ''c1''
         (world_of True registry1 Map.empty 0)
       = Inr (Some ErrTwitchUserDoesNotExist, world_of True registry1 Map.empty 0)"
  by (simp add: example_defs RegisterChannel_def validateAndRefreshAuthToken_def)

section \<open>Unregistration\<close>

text \<open>
  C9. When the registry has no subscription of the chat channel in the guild to the
  streaming channel (in particular when the streaming channel is not in the registry),
  \<open>UnregisterChannel\<close> returns false and the world it hands back is the world it was given:
  same registry, same snapshot files, same number of snapshot writes.
\<close>

theorem unregister_absent_unchanged:
  "\<not> subscribed (twitchData (sess w)) twitchID gID cID \<Longrightarrow>
     UnregisterChannel e twitchID gID cID w = Inr (False, w)"
  using getChannelIdx_negative[of "sess w" twitchID gID cID]
  by (simp add: UnregisterChannel_def Let_def)

theorem unregister_absent_unchanged_witness:
  "\<not> subscribed (twitchData (sess (world_of True registry1 Map.empty 0))) ''bob'' ''g1'' ''c1''
   \<and> UnregisterChannel env_ok ''bob'' ''g1'' ''c1'' (world_of True registry1 Map.empty 0)
       = Inr (False, world_of True registry1 Map.empty 0)"
proof -
  have h: "\<not> subscribed (twitchData (sess (world_of True registry1 Map.empty 0))) ''bob'' ''g1'' ''c1''"
    by (simp add: example_defs subscribed_def guildChannels_def)
  from unregister_absent_unchanged[OF h, of env_ok] h show ?thesis
    by simp
qed

section \<open>Closing the session\<close>

text \<open>
  C1. The claim is that a streaming channel is in the registry exactly when it has a
  non-empty subscription list, and that \<open>Close\<close> removes an entry whose subscriptions it has
  pruned. Evaluated from the empty registry: \<open>alice\<close> is registered for chat channel \<open>c1\<close> of
  guild \<open>g1\<close>, the guild connects and is then set inactive, and the session is closed.
  \<open>Close\<close> deletes the guild from the channel's map but keeps the channel: the entry of
  \<open>alice\<close> stays in the registry, and in the snapshot written, with an empty map.
  \<open>UnregisterChannel\<close> deletes such an entry; \<open>Close\<close> has no step that does.
\<close>

theorem close_leaves_empty_entry:
  "RegisterChannel env_ok ''alice'' ''g1'' ''c1'' (world_of True Map.empty Map.empty 0)
     = Inr (None, world_of True registry1 [''session1'' \<mapsto> registry1] 1)
   \<and> SetGuildInactive ''g1'' (SetGuildActive ''g1'' Map.empty) ''g1'' = Some False
   \<and> Close env_ok (SetGuildInactive ''g1'' (SetGuildActive ''g1'' Map.empty))
         (world_of True registry1 [''session1'' \<mapsto> registry1] 1)
     = (None, world_of False [''alice'' \<mapsto> alice_info Map.empty]
                [''session1'' \<mapsto> [''alice'' \<mapsto> alice_info Map.empty]] 2)
   \<and> DiscordChannels (alice_info Map.empty) = Map.empty"
proof -
  have closed: "Close env_ok (SetGuildInactive ''g1'' (SetGuildActive ''g1'' Map.empty))
         (world_of True registry1 [''session1'' \<mapsto> registry1] 1)
     = (None, world_of False [''alice'' \<mapsto> alice_info Map.empty]
                [''session1'' \<mapsto> [''alice'' \<mapsto> alice_info Map.empty]] 2)"
    by (auto simp add: Close_def Let_def WriteGobToDisk_def example_defs fun_eq_iff
        SetGuildInactive_def SetGuildActive_def)
  have status: "SetGuildInactive ''g1'' (SetGuildActive ''g1'' Map.empty) ''g1'' = Some False"
    by (simp add: SetGuildInactive_def SetGuildActive_def)
  have empty: "DiscordChannels (alice_info Map.empty) = Map.empty"
    by (simp add: alice_info_def)
  from register_first closed status empty show ?thesis by simp
qed

text \<open>
  C2, as stated, fails: with the status of guild \<open>g1\<close> absent from the map, \<open>Close\<close> keeps the
  subscription of \<open>g1\<close>, writes it to the snapshot, and a fresh load returns it.
\<close>

theorem close_keeps_absent_guild:
  "(Map.empty :: guilds) ''g1'' = None
   \<and> Close env_ok Map.empty (world_of True registry1 Map.empty 0)
       = (None, world_of False registry1 [''session1'' \<mapsto> registry1] 1)
   \<and> fst (New None ''session1'' [''session1'' \<mapsto> registry1])
       = sess (world_of False registry1 [''session1'' \<mapsto> registry1] 1)
   \<and> subscribed registry1 ''alice'' ''g1'' ''c1''"
  by (auto simp add: Close_def Let_def WriteGobToDisk_def example_defs fun_eq_iff
      New_def readGobFromDisk_def subscribed_def guildChannels_def)

text \<open>
  C2, amended. \<open>Close\<close> sets the connectivity flag to false and removes the subscriptions of
  exactly the guilds whose status is present with value false: a subscription is in the
  registry afterwards if and only if it was there before and its guild's status is not
  false (so a guild with no status keeps its subscriptions). It then calls the snapshot
  write once. When the write succeeds \<open>Close\<close> returns no error and a fresh load by \<open>New\<close>
  returns the closed session, pruned registry included; when it fails \<open>Close\<close> returns the
  write's error and the files are as before.
\<close>

theorem close_prunes_inactive:
  assumes "Close e guildStatus w = (err, w')"
  shows "\<not> isConnected (sess w')
     \<and> (\<forall>twitchID gID cID.
           subscribed (twitchData (sess w')) twitchID gID cID
             \<longleftrightarrow> subscribed (twitchData (sess w)) twitchID gID cID \<and> guildStatus gID \<noteq> Some False)
     \<and> writes w' = Suc (writes w)
     \<and> (if writeErr e = None
         then err = None \<and> New None (name (sess w)) (files w') = (sess w', None)
         else err = writeErr e \<and> files w' = files w)"
proof -
  let ?prune = "\<lambda>tcInfo. tcInfo\<lparr>DiscordChannels :=
                      (\<lambda>gID. if guildStatus gID = Some False then None
                             else DiscordChannels tcInfo gID)\<rparr>"
  let ?t = "(sess w)\<lparr>isConnected := False,
                       twitchData := (\<lambda>k. map_option ?prune (twitchData (sess w) k))\<rparr>"
  from assms have s: "sess w' = ?t"
    by (auto simp add: Close_def Let_def WriteGobToDisk_def split: option.splits)
  have c1: "\<not> isConnected (sess w')" by (simp add: s)
  have c2: "subscribed (twitchData (sess w')) twitchID gID cID
             \<longleftrightarrow> subscribed (twitchData (sess w)) twitchID gID cID \<and> guildStatus gID \<noteq> Some False"
    for twitchID gID cID
    by (cases "twitchData (sess w) twitchID") (auto simp add: s subscribed_def guildChannels_def)
  from assms have c3: "writes w' = Suc (writes w)"
    by (auto simp add: Close_def Let_def WriteGobToDisk_def split: option.splits)
  have c4: "err = None \<and> New None (name (sess w)) (files w') = (sess w', None)"
    if "writeErr e = None"
    using assms that
    by (auto simp add: Close_def Let_def WriteGobToDisk_def New_def readGobFromDisk_def)
  have c5: "err = writeErr e \<and> files w' = files w" if "writeErr e \<noteq> None"
    using assms that
    by (auto simp add: Close_def Let_def WriteGobToDisk_def)
  from c1 c2 c3 c4 c5 show ?thesis by simp
qed

theorem close_prunes_inactive_witness:
  "Close env_ok [''g1'' \<mapsto> False] (world_of True registry1 Map.empty 0)
     = (None, world_of False [''alice'' \<mapsto> alice_info Map.empty]
                [''session1'' \<mapsto> [''alice'' \<mapsto> alice_info Map.empty]] 1)
   \<and> \<not> subscribed [''alice'' \<mapsto> alice_info Map.empty] ''alice'' ''g1'' ''c1''
   \<and> New None ''session1'' [''session1'' \<mapsto> [''alice'' \<mapsto> alice_info Map.empty]]
       = (\<lparr>name = ''session1'', isConnected = False,
           twitchData = [''alice'' \<mapsto> alice_info Map.empty]\<rparr>, None)"
proof -
  have run: "Close env_ok [''g1'' \<mapsto> False] (world_of True registry1 Map.empty 0)
     = (None, world_of False [''alice'' \<mapsto> alice_info Map.empty]
                [''session1'' \<mapsto> [''alice'' \<mapsto> alice_info Map.empty]] 1)"
    by (auto simp add: Close_def Let_def WriteGobToDisk_def example_defs fun_eq_iff)
  from close_prunes_inactive[OF run] run show ?thesis
    by (simp add: world_of_def env_ok_def)
qed

section \<open>The monitor and the guild status\<close>



section \<open>The closures of the notification goroutines\<close>

text \<open>
  C3. The claim is that a live notification goes to a subscription only while its flag is
  clear, so that each subscription gets at most one per live session. Evaluated for
  \<open>alice\<close>, live since instant 400, with two unnotified subscribers \<open>c1\<close> and \<open>c2\<close> in the
  active guild \<open>g1\<close>, threshold 300, over the passes at instants 1000 and 2000: the first
  pass sets both flags and starts one goroutine per subscriber, but each closure reads the
  shared loop variable \<open>discordChannel\<close> when it runs, and run after the loop has moved on
  both find \<open>c2\<close> in it. \<open>c2\<close> is sent two live messages and \<open>c1\<close> none, and the second pass
  sends nothing since the flags are set. When every goroutine runs as soon as it is started
  the same passes send one message to each. The offline branch has the same closure (C6).
\<close>

theorem live_embeds_reach_wrong_channel:
  "map (\<lambda>out. out ''alice'' ''g1'')
       (fst (monitorChannels 300 [late_live_pass 1000, late_live_pass 2000] (session_of registry2)))
     = [[SendEmbed ''c2'' live_embed, SendEmbed ''c2'' live_embed], []]
   \<and> embedsTo ''c2'' (concat (map (\<lambda>out. out ''alice'' ''g1'')
         (fst (monitorChannels 300 [late_live_pass 1000, late_live_pass 2000]
                (session_of registry2))))) = 2
   \<and> embedsTo ''c1'' (concat (map (\<lambda>out. out ''alice'' ''g1'')
         (fst (monitorChannels 300 [late_live_pass 1000, late_live_pass 2000]
                (session_of registry2))))) = 0
   \<and> map (\<lambda>out. out ''alice'' ''g1'')
       (fst (monitorChannels 300
          [(env_ok\<lparr>streamsResp := Some [live_alice], clock := 1000\<rparr>, [''g1'' \<mapsto> True]),
           (env_ok\<lparr>streamsResp := Some [live_alice], clock := 2000\<rparr>, [''g1'' \<mapsto> True])]
          (session_of registry2)))
     = [[SendEmbed ''c1'' live_embed, SendEmbed ''c2'' live_embed], []]"
proof -
  have late: "map (\<lambda>out. out ''alice'' ''g1'')
       (fst (monitorChannels 300 [late_live_pass 1000, late_live_pass 2000] (session_of registry2)))
     = [[SendEmbed ''c2'' live_embed, SendEmbed ''c2'' live_embed], []]"
    by (simp add: monitor_defs example_defs registry2_def late_live_pass_def live_embed_def)
  have at_once: "map (\<lambda>out. out ''alice'' ''g1'')
       (fst (monitorChannels 300
          [(env_ok\<lparr>streamsResp := Some [live_alice], clock := 1000\<rparr>, [''g1'' \<mapsto> True]),
           (env_ok\<lparr>streamsResp := Some [live_alice], clock := 2000\<rparr>, [''g1'' \<mapsto> True])]
          (session_of registry2)))
     = [[SendEmbed ''c1'' live_embed, SendEmbed ''c2'' live_embed], []]"
    by (simp add: monitor_defs example_defs registry2_def live_embed_def)
  show ?thesis
    unfolding late at_once by (simp add: embedsTo_def)
qed

text \<open>
  C6. The claim is that, once a channel has been offline for longer than the threshold,
  each subscription whose flag is set gets exactly one offline text and its flag is
  cleared. Evaluated for \<open>alice\<close>, offline since instant 100, with two notified subscribers
  \<open>c1\<close> and \<open>c2\<close> in the active guild \<open>g1\<close>, threshold 300, in the pass at instant 1000: the
  start time is zero, the end time is kept, both flags are cleared and one goroutine is
  started per subscriber, but each closure reads the shared loop variable \<open>discordChannel\<close>
  when it runs, and run after the loop has moved on both find \<open>c2\<close> in it. \<open>c2\<close> is sent two
  offline texts and \<open>c1\<close> none. When every goroutine runs as soon as it is started the same
  pass sends one text to each. The live branch has the same closure (C3).
\<close>

theorem offline_texts_reach_wrong_channel:
  "300 < Since 1000 100
   \<and> (case monitorCycle 300 (fst (late_offline_pass 1000)) (snd (late_offline_pass 1000))
            (session_of registry2_off) of
        Inl p \<Rightarrow> False
      | Inr (ts', out) \<Rightarrow>
          out ''alice'' ''g1''
            = [SendText ''c2'' ''Alice is now offline!'', SendText ''c2'' ''Alice is now offline!'']
          \<and> textsTo ''c2'' (out ''alice'' ''g1'') = 2
          \<and> textsTo ''c1'' (out ''alice'' ''g1'') = 0
          \<and> map_option (\<lambda>tc. (StartTime tc, EndTime tc, guildChannels tc ''g1''))
                (twitchData ts' ''alice'')
              = Some (0, 100, [subscription ''c1'' False, subscription ''c2'' False]))
   \<and> (case monitorCycle 300 (env_ok\<lparr>clock := 1000\<rparr>) [''g1'' \<mapsto> True]
            (session_of registry2_off) of
        Inl p \<Rightarrow> False
      | Inr (ts', out) \<Rightarrow>
          out ''alice'' ''g1''
            = [SendText ''c1'' ''Alice is now offline!'', SendText ''c2'' ''Alice is now offline!''])"
  by (simp add: monitor_defs example_defs registry2_off_def late_offline_pass_def textsTo_def)

section \<open>Unregistering every subscriber\<close>

text \<open>
  C5. Unregistering a subscription that is in the registry returns true and removes one
  subscription with that chat channel ID from the guild's slice (the rest of the slice is
  kept, as a multiset); when the slice becomes empty the guild's entry is deleted from the
  channel's map, and when the map has then no entry left the streaming channel is deleted
  from the registry. Consequently, when a streaming channel that is not in the registry is
  registered under any keys and every one of these keys is then unregistered, once each and
  in any order, every unregistration succeeds and the registry is again the registry
  before the first registration.
\<close>

theorem unregister_cascade:
  "(subscribed (twitchData (sess w)) twitchID gID cID
    \<longrightarrow> (\<exists>w' tcInfo d s.
           twitchData (sess w) twitchID = Some tcInfo
         \<and> UnregisterChannel e twitchID gID cID w = Inr (True, w')
         \<and> d \<in> set (guildChannels tcInfo gID) \<and> ChannelID d = cID
         \<and> mset s = mset (guildChannels tcInfo gID) - {#d#}
         \<and> twitchData (sess w')
             = (if s = [] \<and> (DiscordChannels tcInfo)(gID := None) = Map.empty
                then (twitchData (sess w))(twitchID := None)
                else (twitchData (sess w))(twitchID \<mapsto> tcInfo\<lparr>DiscordChannels :=
                       (DiscordChannels tcInfo)(gID := (if s = [] then None else Some s))\<rparr>))))
   \<and> (twitchData (sess w) twitchID = None
      \<and> registerAll twitchID rs w = Some w1
      \<and> distinct (map snd us) \<and> set (map snd us) = set (map snd rs)
    \<longrightarrow> (\<exists>w2. unregisterAll twitchID us w1 = Some w2
              \<and> twitchData (sess w2) = twitchData (sess w)))"
proof (intro conjI impI)
  assume "subscribed (twitchData (sess w)) twitchID gID cID"
  then show "\<exists>w' tcInfo d s.
           twitchData (sess w) twitchID = Some tcInfo
         \<and> UnregisterChannel e twitchID gID cID w = Inr (True, w')
         \<and> d \<in> set (guildChannels tcInfo gID) \<and> ChannelID d = cID
         \<and> mset s = mset (guildChannels tcInfo gID) - {#d#}
         \<and> twitchData (sess w')
             = (if s = [] \<and> (DiscordChannels tcInfo)(gID := None) = Map.empty
                then (twitchData (sess w))(twitchID := None)
                else (twitchData (sess w))(twitchID \<mapsto> tcInfo\<lparr>DiscordChannels :=
                       (DiscordChannels tcInfo)(gID := (if s = [] then None else Some s))\<rparr>))"
    by (rule unregister_existing)
next
  assume a: "twitchData (sess w) twitchID = None
      \<and> registerAll twitchID rs w = Some w1
      \<and> distinct (map snd us) \<and> set (map snd us) = set (map snd rs)"
  then have absent: "twitchData (sess w) twitchID = None"
    and reg: "registerAll twitchID rs w = Some w1"
    and dist: "distinct (map snd us)"
    and same: "set (map snd us) = set (map snd rs)"
    by simp_all
  have ok0: "entry_ok (twitchData (sess w) twitchID)" by (simp add: absent entry_ok_def)
  from registerAll_keys[OF reg ok0] absent same
  have ok1: "entry_ok (twitchData (sess w1) twitchID)"
    and keys1: "entryKeys (twitchData (sess w1) twitchID) = set (map snd us)"
    and others: "\<forall>other. other \<noteq> twitchID \<longrightarrow> twitchData (sess w1) other = twitchData (sess w) other"
    by (simp_all add: entryKeys_def)
  show "\<exists>w2. unregisterAll twitchID us w1 = Some w2 \<and> twitchData (sess w2) = twitchData (sess w)"
  proof (cases "us = []")
    case True
    with same have "rs = []" by simp
    with reg have "w1 = w" by simp
    with True show ?thesis by simp
  next
    case False
    from unregisterAll_all[OF ok1 keys1 dist False] obtain w2 where
      un: "unregisterAll twitchID us w1 = Some w2" and
      td: "twitchData (sess w2) = (twitchData (sess w1))(twitchID := None)"
      by blast
    have "twitchData (sess w2) = twitchData (sess w)"
      using td others absent by (auto simp add: fun_eq_iff)
    with un show ?thesis by blast
  qed
qed

theorem unregister_cascade_witness:
  "subscribed (twitchData (sess (world_of True registry1 Map.empty 0))) ''alice'' ''g1'' ''c1''
   \<and> UnregisterChannel env_ok ''alice'' ''g1'' ''c1'' (world_of True registry1 Map.empty 0)
       = Inr (True, world_of True Map.empty [''session1'' \<mapsto> Map.empty] 1)
   \<and> twitchData (sess (world_of True Map.empty Map.empty 0)) ''alice'' = None
   \<and> distinct (map snd three_keys_shuffled)
   \<and> set (map snd three_keys_shuffled) = set (map snd three_keys)
   \<and> (\<exists>w1 w2. registerAll ''alice'' three_keys (world_of True Map.empty Map.empty 0) = Some w1
         \<and> subscribed (twitchData (sess w1)) ''alice'' ''g1'' ''c2''
         \<and> subscribed (twitchData (sess w1)) ''alice'' ''g2'' ''c1''
         \<and> unregisterAll ''alice'' three_keys_shuffled w1 = Some w2
         \<and> twitchData (sess w2) = Map.empty)"
proof -
  let ?w = "world_of True registry1 Map.empty 0"
  let ?start = "world_of True Map.empty Map.empty 0"
  have sub: "subscribed (twitchData (sess ?w)) ''alice'' ''g1'' ''c1''"
    by (simp add: subscribed_def example_defs guildChannels_def)
  have un: "UnregisterChannel env_ok ''alice'' ''g1'' ''c1'' ?w
              = Inr (True, world_of True Map.empty [''session1'' \<mapsto> Map.empty] 1)"
    by (auto simp add: example_defs operation_defs fun_eq_iff)
  have absent: "twitchData (sess ?start) ''alice'' = None"
    by (simp add: world_of_def)
  have dist: "distinct (map snd three_keys_shuffled)"
    by (simp add: three_keys_shuffled_def)
  have same: "set (map snd three_keys_shuffled) = set (map snd three_keys)"
    by (auto simp add: three_keys_shuffled_def three_keys_def)
  obtain w1 where reg: "registerAll ''alice'' three_keys ?start = Some w1"
    and s1: "subscribed (twitchData (sess w1)) ''alice'' ''g1'' ''c2''"
    and s2: "subscribed (twitchData (sess w1)) ''alice'' ''g2'' ''c1''"
    by (simp add: three_keys_def example_defs operation_defs subscribed_def)
  from unregister_cascade[where w = ?w and twitchID = "''alice''" and gID = "''g1''"
      and cID = "''c1''" and e = env_ok] sub
  have removed: "\<exists>w'. UnregisterChannel env_ok ''alice'' ''g1'' ''c1'' ?w = Inr (True, w')"
    by blast
  from unregister_cascade[where w = ?start and twitchID = "''alice''" and rs = three_keys
      and ?w1.0 = w1 and us = three_keys_shuffled] absent reg dist same
  obtain w2 where undone: "unregisterAll ''alice'' three_keys_shuffled w1 = Some w2"
    and td: "twitchData (sess w2) = twitchData (sess ?start)"
    by blast
  from td have "twitchData (sess w2) = Map.empty" by (simp add: world_of_def)
  with sub un absent dist same reg s1 s2 undone show ?thesis by blast
qed

end
